theory Spec2Isabelle
  imports Main "HOL-Library.Word" "HOL-Library.Multiset"
begin

section \<open>Rule evaluator\<close>

text \<open>
  The Go struct \<open>Rule\<close>. Its field \<open>Features\<close> is a Go \<open>map[string]bool\<close>; it is kept
  here as an association list read through \<open>map_of\<close>, so that the \<open>range\<close> loop of
  \<open>testRule\<close> has keys to enumerate. The nested struct \<open>Os\<close> is flattened into the
  fields \<open>Os_Arch\<close> and \<open>Os_Name\<close>; an unset JSON field is the empty string, as in Go.
\<close>

record Rule =
  Action :: string
  Features :: "(string \<times> bool) list"
  Os_Arch :: string
  Os_Name :: string

text \<open>The two constants of package \<open>runtime\<close> that \<open>testRule\<close> reads.\<close>

record runtime =
  GOOS :: string
  GOARCH :: string

text \<open>
  Reading a Go map at a key gives the stored value, or the zero value \<open>false\<close> when the
  key is absent.
\<close>

definition index_or_zero :: "(string \<rightharpoonup> bool) \<Rightarrow> string \<Rightarrow> bool" where
  "index_or_zero m k = (case m k of None \<Rightarrow> False | Some b \<Rightarrow> b)"

text \<open>
  The loop \<open>for ruleFeature := range this.Features\<close> of \<open>testRule\<close>, over the keys still
  to be visited: \<open>False\<close> is the early \<open>return false\<close>, \<open>True\<close> is falling out of the
  loop.
\<close>

fun range_Features :: "(string \<rightharpoonup> bool) \<Rightarrow> string list \<Rightarrow> (string \<rightharpoonup> bool) \<Rightarrow> bool" where
  "range_Features this_Features [] features = True"
| "range_Features this_Features (ruleFeature # rest) features =
     (case features ruleFeature of
        None \<Rightarrow> False
      | Some v \<Rightarrow>
          if v \<noteq> index_or_zero this_Features ruleFeature then False
          else range_Features this_Features rest features)"

definition testRule :: "runtime \<Rightarrow> Rule \<Rightarrow> (string \<rightharpoonup> bool) \<Rightarrow> bool" where
  "testRule rt this features =
     (if \<not> range_Features (map_of (Features this)) (map fst (Features this)) features then False
      else if Os_Arch this \<noteq> [] \<and> GOARCH rt \<noteq> Os_Arch this then False
      else if Os_Name this \<noteq> [] \<and> GOOS rt \<noteq> Os_Name this then False
      else True)"

text \<open>
  The loop \<open>for i := range rules\<close> of \<open>testRules\<close>, with the local variable \<open>action\<close> as
  accumulator.
\<close>

fun range_rules :: "runtime \<Rightarrow> string \<Rightarrow> Rule list \<Rightarrow> (string \<rightharpoonup> bool) \<Rightarrow> string" where
  "range_rules rt action [] features = action"
| "range_rules rt action (rule # rest) features =
     range_rules rt (if testRule rt rule features then Action rule else action) rest features"

definition testRules :: "runtime \<Rightarrow> Rule list \<Rightarrow> (string \<rightharpoonup> bool) \<Rightarrow> bool" where
  "testRules rt rules features =
     (if length rules = 0 then True
      else range_rules rt ''disallow'' rules features = ''allow'')"

text \<open>
  The decision as the specification words it: \<open>disallow\<close> unless some rule matches, and
  then the action of the last rule that matches.
\<close>

definition last_match :: "runtime \<Rightarrow> Rule list \<Rightarrow> (string \<rightharpoonup> bool) \<Rightarrow> string" where
  "last_match rt rules features =
     (case rev (filter (\<lambda>r. testRule rt r features) rules) of
        [] \<Rightarrow> ''disallow''
      | r # _ \<Rightarrow> Action r)"

section \<open>Errors\<close>

text \<open>
  Go's \<open>error\<close> values. \<open>New\<close> is \<open>errors.New\<close> (also the result of
  \<open>errors.New(fmt.Sprintf(...))\<close>), \<open>Join\<close> is the \<open>joinError\<close> that \<open>errors.Join\<close>
  builds. The other constructors stand for the errors of the standard library that the
  program only passes on: a failed file-system call (operation and path), a failed HTTP
  exchange (the URL), and a decoding failure (gzip, tar or JSON).
\<close>

datatype error =
    New string
  | Join "error list"
  | PathError string string
  | UrlError string
  | DecodeError string

text \<open>
  \<open>errors.Join(errs...)\<close>: nil arguments are discarded, and the result is nil when no
  argument is left.
\<close>

fun non_nil :: "error option list \<Rightarrow> error list" where
  "non_nil [] = []"
| "non_nil (None # errs) = non_nil errs"
| "non_nil (Some e # errs) = e # non_nil errs"

definition errors_Join :: "error option list \<Rightarrow> error option" where
  "errors_Join errs = (if non_nil errs = [] then None else Some (Join (non_nil errs)))"

text \<open>
  \<open>errors.Join(errors.New(msg), err)\<close> at a place where \<open>err\<close> is known to be non-nil.
\<close>

definition wrap :: "string \<Rightarrow> error \<Rightarrow> error" where
  "wrap msg err = Join [New msg, err]"

text \<open>The errors that are not themselves joins, in the order \<open>Error()\<close> prints them.\<close>

fun flat :: "error \<Rightarrow> error list" where
  "flat (Join es) = concat (map flat es)"
| "flat e = [e]"

definition flat_opt :: "error option \<Rightarrow> error list" where
  "flat_opt r = (case r of None \<Rightarrow> [] | Some e \<Rightarrow> flat e)"

text \<open>\<open>fmt.Sprintf("%d", n)\<close> for a length.\<close>

fun decimal :: "nat \<Rightarrow> string" where
  "decimal n =
     (if n < 10 then [''0123456789'' ! n]
      else decimal (n div 10) @ [''0123456789'' ! (n mod 10)])"

declare decimal.simps [simp del]

section \<open>The environment: files and network\<close>

type_synonym bytes = "8 word list"

text \<open>
  The file system is a map from path strings to nodes. A regular file carries its bytes
  and its permission bits. Paths are compared as strings; only \<open>os.MkdirAll\<close> looks
  inside one, for the ancestors it has to create. Symbolic links are stored but never
  resolved: \<open>os.Stat\<close>, \<open>os.Open\<close> and \<open>os.OpenFile\<close> treat a link as dangling. The
  process umask is not modelled.
\<close>

datatype node = File bytes nat | Dir | Symlink string

datatype fsop = OpStat | OpOpen | OpRead | OpCreate | OpWrite | OpRemove | OpMkdir | OpSymlink

datatype event =
    EvStat string
  | EvOpen string
  | EvRead string
  | EvCreate string
  | EvWrite string
  | EvRemove string
  | EvMkdirAll string
  | EvSymlink string
  | EvGet string

text \<open>
  What \<open>http.Get\<close> finds at a URL: no connection, or a response with its status code,
  its status line, the bytes of the body that arrive and whether the body then breaks
  off with a transfer error.
\<close>

record response =
  StatusCode :: nat
  Status :: string
  Body :: bytes
  Body_err :: bool

text \<open>
  The world a call runs in. \<open>denied op path\<close> says that the operating system refuses
  \<open>op\<close> on \<open>path\<close> (permissions, a full disk, a missing parent directory); \<open>trace\<close>
  records every system call and every HTTP request, oldest first.
\<close>

record world =
  files :: "string \<rightharpoonup> node"
  denied :: "fsop \<Rightarrow> string \<Rightarrow> bool"
  net :: "string \<rightharpoonup> response"
  trace :: "event list"

definition emit :: "event \<Rightarrow> world \<Rightarrow> world" where
  "emit ev w = w\<lparr>trace := trace w @ [ev]\<rparr>"

subsection \<open>The wrappers of the \<open>!windows\<close> build\<close>

text \<open>\<open>fileExists\<close>: \<open>os.Stat\<close> returned no error.\<close>

definition fileExists :: "world \<Rightarrow> string \<Rightarrow> bool \<times> world" where
  "fileExists w path =
     ((case files w path of
         None \<Rightarrow> False
       | Some (Symlink _) \<Rightarrow> False
       | Some _ \<Rightarrow> \<not> denied w OpStat path),
      emit (EvStat path) w)"

text \<open>
  \<open>openFile\<close> is \<open>os.Open\<close>. The handle it returns is identified with the path. A
  directory can be opened; reading it fails later.
\<close>

definition openFile :: "world \<Rightarrow> string \<Rightarrow> (error + string) \<times> world" where
  "openFile w name =
     ((case files w name of
         None \<Rightarrow> Inl (PathError ''open'' name)
       | Some (Symlink _) \<Rightarrow> Inl (PathError ''open'' name)
       | Some _ \<Rightarrow> if denied w OpOpen name then Inl (PathError ''open'' name) else Inr name),
      emit (EvOpen name) w)"

text \<open>Reading an open file to its end, as \<open>io.Copy\<close> and \<open>io.ReadAll\<close> do.\<close>

definition read_all :: "world \<Rightarrow> string \<Rightarrow> (error + bytes) \<times> world" where
  "read_all w file =
     ((case files w file of
         Some (File content _) \<Rightarrow>
           if denied w OpRead file then Inl (PathError ''read'' file) else Inr content
       | _ \<Rightarrow> Inl (PathError ''read'' file)),
      emit (EvRead file) w)"

text \<open>
  \<open>os.OpenFile(name, O_RDWR|O_CREATE|O_TRUNC, perms)\<close>: a missing file is created empty
  with the nine permission bits of \<open>perms\<close>, an existing one is truncated and keeps its
  bits.
\<close>

definition createFileWithPerms :: "world \<Rightarrow> string \<Rightarrow> nat \<Rightarrow> (error + string) \<times> world" where
  "createFileWithPerms w name perms =
     (let w1 = emit (EvCreate name) w in
      if denied w OpCreate name then (Inl (PathError ''open'' name), w1)
      else case files w name of
          None \<Rightarrow> (Inr name, w1\<lparr>files := (files w1)(name \<mapsto> File [] (perms mod 512))\<rparr>)
        | Some (File _ old) \<Rightarrow> (Inr name, w1\<lparr>files := (files w1)(name \<mapsto> File [] old)\<rparr>)
        | Some _ \<Rightarrow> (Inl (PathError ''open'' name), w1))"

text \<open>\<open>createFile\<close> is \<open>os.Create\<close>, that is \<open>OpenFile\<close> with the bits \<open>0666\<close>.\<close>

definition createFile :: "world \<Rightarrow> string \<Rightarrow> (error + string) \<times> world" where
  "createFile w name = createFileWithPerms w name 438"

text \<open>Appending bytes through an open handle, as \<open>io.Copy\<close> into the file does.\<close>

definition write_file :: "world \<Rightarrow> string \<Rightarrow> bytes \<Rightarrow> error option \<times> world" where
  "write_file w file bs =
     (let w1 = emit (EvWrite file) w in
      case files w file of
        Some (File content perms) \<Rightarrow>
          if denied w OpWrite file then (Some (PathError ''write'' file), w1)
          else (None, w1\<lparr>files := (files w1)(file \<mapsto> File (content @ bs) perms)\<rparr>)
      | _ \<Rightarrow> (Some (PathError ''write'' file), w1))"

definition os_Remove :: "world \<Rightarrow> string \<Rightarrow> error option \<times> world" where
  "os_Remove w path =
     (let w1 = emit (EvRemove path) w in
      if files w path = None \<or> denied w OpRemove path
      then (Some (PathError ''remove'' path), w1)
      else (None, w1\<lparr>files := (files w1)(path := None)\<rparr>))"

text \<open>
  The directories \<open>os.MkdirAll\<close> needs: the path without its trailing slashes, and
  before it every prefix that ends in front of a slash.
\<close>

definition strip_slashes :: "string \<Rightarrow> string" where
  "strip_slashes p = rev (dropWhile (\<lambda>c. c = CHR ''/'') (rev p))"

definition ancestors :: "string \<Rightarrow> string list" where
  "ancestors p =
     filter (\<lambda>q. q \<noteq> [] \<and> last q \<noteq> CHR ''/'')
       (map (\<lambda>i. take i p) (filter (\<lambda>i. p ! i = CHR ''/'') [0..<length p]))"

definition is_dir_or_free :: "world \<Rightarrow> string \<Rightarrow> bool" where
  "is_dir_or_free w p = (case files w p of None \<Rightarrow> True | Some Dir \<Rightarrow> True | Some _ \<Rightarrow> False)"

fun make_dirs :: "(string \<rightharpoonup> node) \<Rightarrow> string list \<Rightarrow> (string \<rightharpoonup> node)" where
  "make_dirs fs [] = fs"
| "make_dirs fs (d # ds) = make_dirs (fs(d \<mapsto> Dir)) ds"

text \<open>\<open>createParents\<close> is \<open>os.MkdirAll(path, os.ModePerm)\<close>.\<close>

definition createParents :: "world \<Rightarrow> string \<Rightarrow> error option \<times> world" where
  "createParents w path =
     (let w1 = emit (EvMkdirAll path) w;
          dirs = ancestors (strip_slashes path) @ [strip_slashes path] in
      if denied w OpMkdir path \<or> \<not> list_all (is_dir_or_free w) dirs
      then (Some (PathError ''mkdir'' path), w1)
      else (None, w1\<lparr>files := make_dirs (files w1) dirs\<rparr>))"

text \<open>\<open>createLink\<close> is \<open>os.Symlink(target, path)\<close>.\<close>

definition createLink :: "world \<Rightarrow> string \<Rightarrow> string \<Rightarrow> error option \<times> world" where
  "createLink w path target =
     (let w1 = emit (EvSymlink path) w in
      if files w path \<noteq> None \<or> denied w OpSymlink path
      then (Some (PathError ''symlink'' path), w1)
      else (None, w1\<lparr>files := (files w1)(path \<mapsto> Symlink target)\<rparr>))"

text \<open>\<open>http.Get\<close>.\<close>

definition http_Get :: "world \<Rightarrow> string \<Rightarrow> (error + response) \<times> world" where
  "http_Get w url =
     ((case net w url of None \<Rightarrow> Inl (UrlError url) | Some r \<Rightarrow> Inr r),
      emit (EvGet url) w)"

text \<open>
  \<open>filepath.Dir\<close>, without the clean-up of dots and doubled slashes that \<open>filepath.Clean\<close>
  adds: everything in front of the last slash.
\<close>

definition filepath_Dir :: "string \<Rightarrow> string" where
  "filepath_Dir path =
     (if CHR ''/'' \<notin> set path then ''.''
      else let d = strip_slashes (rev (dropWhile (\<lambda>c. c \<noteq> CHR ''/'') (rev path)))
           in if d = [] then ''/'' else d)"

section \<open>Integrity verifier (file.go)\<close>

text \<open>
  The two digests of the standard library, each already followed by
  \<open>hex.EncodeToString\<close>. They are parameters of the model.
\<close>

record digests =
  sha1_hex :: "bytes \<Rightarrow> string"
  sha256_hex :: "bytes \<Rightarrow> string"

text \<open>The \<open>switch hashSize\<close> of \<open>hashFile\<close>; \<open>None\<close> is its \<open>default\<close> branch.\<close>

definition select_digest :: "digests \<Rightarrow> nat \<Rightarrow> (bytes \<Rightarrow> string) option" where
  "select_digest ds hashSize =
     (if hashSize = 40 then Some (sha1_hex ds)
      else if hashSize = 64 then Some (sha256_hex ds)
      else None)"

definition hashFile :: "digests \<Rightarrow> world \<Rightarrow> string \<Rightarrow> string \<Rightarrow> (error + bool) \<times> world" where
  "hashFile ds w path sha =
     (case openFile w path of
        (Inl err, w1) \<Rightarrow> (Inl (wrap (''failed to hash file '' @ path) err), w1)
      | (Inr file, w1) \<Rightarrow>
          (case select_digest ds (length sha) of
             None \<Rightarrow> (Inl (New (''Unknown hash size '' @ decimal (length sha))), w1)
           | Some digest \<Rightarrow>
               (case read_all w1 file of
                  (Inl err, w2) \<Rightarrow> (Inl (wrap (''failed to hash file '' @ path) err), w2)
                | (Inr content, w2) \<Rightarrow> (Inr (digest content = sha), w2))))"

definition validateHash :: "digests \<Rightarrow> world \<Rightarrow> string \<Rightarrow> string \<Rightarrow> (error + bool) \<times> world" where
  "validateHash ds w path hash =
     (case fileExists w path of
        (True, w1) \<Rightarrow>
          (case hashFile ds w1 path hash of
             (Inl err, w2) \<Rightarrow> (Inl (wrap (''could not validate hash of '' @ path) err), w2)
           | (Inr result, w2) \<Rightarrow>
               if \<not> result then
                 (case os_Remove w2 path of
                    (Some err, w3) \<Rightarrow>
                      (Inl (wrap (''could not delete corrupted file '' @ path) err), w3)
                  | (None, w3) \<Rightarrow> (Inr result, w3))
               else (Inr result, w2))
      | (False, w1) \<Rightarrow> (Inr False, w1))"

section \<open>Fetcher (http.go)\<close>

text \<open>
  \<open>io.Copy(file, response.Body)\<close>: the bytes that arrive are written to the file; the
  copy fails when the write fails or when the body breaks off.
\<close>

definition copy_body :: "world \<Rightarrow> string \<Rightarrow> string \<Rightarrow> response \<Rightarrow> error option \<times> world" where
  "copy_body w file url r =
     (case write_file w file (Body r) of
        (Some err, w1) \<Rightarrow> (Some err, w1)
      | (None, w1) \<Rightarrow> if Body_err r then (Some (UrlError url), w1) else (None, w1))"

text \<open>
  \<open>downloadFileRaw\<close> from the call of \<open>createParents\<close> on, which is where it continues
  when no hash was given or the cached file did not validate.
\<close>

definition download_uncached ::
  "digests \<Rightarrow> world \<Rightarrow> string \<Rightarrow> string \<Rightarrow> string option \<Rightarrow> error option \<times> world" where
  "download_uncached ds w path url hash =
     (case createParents w (filepath_Dir path) of
        (Some err, w1) \<Rightarrow> (Some (wrap (''failed to create parents of '' @ path) err), w1)
      | (None, w1) \<Rightarrow>
     (case createFile w1 path of
        (Inl err, w2) \<Rightarrow> (Some (wrap (''failed to create file '' @ path) err), w2)
      | (Inr file, w2) \<Rightarrow>
     (case http_Get w2 url of
        (Inl err, w3) \<Rightarrow> (Some (wrap (''failed to download '' @ url) err), w3)
      | (Inr r, w3) \<Rightarrow>
          if StatusCode r div 100 \<noteq> 2
          then (Some (New (''failed to download '' @ url @ '': '' @ Status r)), w3)
          else
     (case copy_body w3 file url r of
        (Some err, w4) \<Rightarrow>
          (case os_Remove w4 path of
             (_, w5) \<Rightarrow> (Some (wrap (''failed to download '' @ url) err), w5))
      | (None, w4) \<Rightarrow>
     (case hash of
        None \<Rightarrow> (None, w4)
      | Some h \<Rightarrow>
          (case validateHash ds w4 path h of
             (Inl err, w5) \<Rightarrow> (Some (wrap (''could not validate hash of '' @ path) err), w5)
           | (Inr valid, w5) \<Rightarrow>
               if \<not> valid then (Some (New (''download '' @ path @ '' failed to download'')), w5)
               else (None, w5)))))))"

text \<open>A nil \<open>*string\<close> is \<open>None\<close>.\<close>

definition downloadFileRaw ::
  "digests \<Rightarrow> world \<Rightarrow> string \<Rightarrow> string \<Rightarrow> string option \<Rightarrow> error option \<times> world" where
  "downloadFileRaw ds w path url hash =
     (case hash of
        None \<Rightarrow> download_uncached ds w path url hash
      | Some h \<Rightarrow>
          (case validateHash ds w path h of
             (Inl err, w1) \<Rightarrow> (Some (wrap (''failed to validate '' @ path) err), w1)
           | (Inr valid, w1) \<Rightarrow>
               if valid then (None, w1) else download_uncached ds w1 path url hash))"

text \<open>
  The block \<open>if hash != nil { ... }\<close> of \<open>downloadJsonRaw\<close>: \<open>Some\<close> is its early return.
\<close>

definition verify_buffer :: "digests \<Rightarrow> string \<Rightarrow> string option \<Rightarrow> bytes \<Rightarrow> error option" where
  "verify_buffer ds url hash buffer =
     (case hash of
        None \<Rightarrow> None
      | Some h \<Rightarrow>
          let calculated = sha1_hex ds buffer in
          if calculated \<noteq> h
          then Some (New (''failed to verify hash of '' @ url @ '', got '' @ calculated
                          @ '' and expected '' @ h))
          else None)"

text \<open>
  \<open>downloadJsonRaw\<close>. \<open>json.Unmarshal\<close> is the parameter \<open>unmarshal\<close>: from the buffer and
  the structure as it is, an error or nil and the structure as it then is (a failed
  decoding may already have written part of it). The result pairs the error with the
  structure the caller holds afterwards.
\<close>

definition downloadJsonRaw ::
  "digests \<Rightarrow> (bytes \<Rightarrow> 's \<Rightarrow> error option \<times> 's) \<Rightarrow> world \<Rightarrow> string \<Rightarrow> string option \<Rightarrow> 's
     \<Rightarrow> (error option \<times> 's) \<times> world" where
  "downloadJsonRaw ds unmarshal w url hash structure =
     (case http_Get w url of
        (Inl err, w1) \<Rightarrow> ((Some (wrap (''failed to download '' @ url) err), structure), w1)
      | (Inr r, w1) \<Rightarrow>
          if StatusCode r div 100 \<noteq> 2
          then ((Some (New (''failed to download '' @ url @ '': '' @ Status r)), structure), w1)
          else if Body_err r
          then ((Some (wrap (''failed to copy '' @ url @ '' into a buffer'') (UrlError url)),
                 structure), w1)
          else
            let buffer = Body r in
            (case verify_buffer ds url hash buffer of
               Some err \<Rightarrow> ((Some err, structure), w1)
             | None \<Rightarrow>
                 (case unmarshal buffer structure of
                    (Some err, s') \<Rightarrow>
                      ((Some (wrap (''Failed to parse JSON of '' @ url) err), s'), w1)
                  | (None, s') \<Rightarrow> ((None, s'), w1))))"

section \<open>Download orchestrator (downloadAssets, downloadLibraries)\<close>

record Artifact =
  Path :: string
  Sha1 :: string
  Size :: "64 word"
  Url :: string

record Library =
  Downloads_Artifact :: Artifact
  Library_Name :: string
  Library_Rules :: "Rule list"

record AssetIndex =
  AssetIndex_Id :: string
  AssetIndex_Sha1 :: string
  AssetIndex_Url :: string

record AssetEntry =
  Hash :: string
  AssetEntry_Size :: "64 word"

text \<open>
  \<open>AssetManifest.Objects\<close> is a Go map; it is kept as the list of its entries in the
  order in which \<open>range\<close> happens to enumerate them.
\<close>

record AssetManifest =
  Objects :: "(string \<times> AssetEntry) list"

definition URL_RESOURCES :: string where
  "URL_RESOURCES = ''https://resources.download.minecraft.net/''"

text \<open>
  What a goroutine leaves behind: the value it sent on the channel, or a panic (the slice
  expression \<open>Hash[0:2]\<close> on a string shorter than two bytes), which ends the process.
\<close>

datatype outcome = Panicked | Sent "error option"

text \<open>What a call comes to: the process died, the call waits forever, or it returned.\<close>

datatype 'a run = Crashed | Blocked | Returned 'a

text \<open>
  The goroutine of \<open>downloadAssets\<close>. \<open>downloadFile(path, &entry)\<close> is
  \<open>downloadFileRaw(path, entry.url(), entry.hash())\<close>, and \<open>entry.hash()\<close> is never nil.
\<close>

definition asset_unit :: "digests \<Rightarrow> string \<Rightarrow> world \<Rightarrow> AssetEntry \<Rightarrow> outcome \<times> world" where
  "asset_unit ds base w entry =
     (if length (Hash entry) < 2 then (Panicked, w)
      else
        let file = take 2 (Hash entry) @ ''/'' @ Hash entry;
            path = base @ ''/assets/objects/'' @ file;
            url = URL_RESOURCES @ take 2 (Hash entry) @ ''/'' @ Hash entry
        in case downloadFileRaw ds w path url (Some (Hash entry)) of
             (err, w1) \<Rightarrow> (Sent err, w1))"

text \<open>
  The goroutine of \<open>downloadLibraries\<close>, for a library and the path computed for it.
\<close>

definition library_unit :: "digests \<Rightarrow> world \<Rightarrow> string \<times> Library \<Rightarrow> outcome \<times> world" where
  "library_unit ds w pl =
     (case pl of (path, library) \<Rightarrow>
        (case downloadFileRaw ds w path (Url (Downloads_Artifact library))
                (Some (Sha1 (Downloads_Artifact library))) of
           (err, w1) \<Rightarrow> (Sent err, w1)))"

text \<open>
  The goroutines run concurrently. The model runs them one at a time, each to its end,
  in the order of the list it is given; the caller of the model chooses that order.
\<close>

fun run_units :: "(world \<Rightarrow> 'u \<Rightarrow> outcome \<times> world) \<Rightarrow> world \<Rightarrow> 'u list \<Rightarrow> outcome list \<times> world" where
  "run_units unit w [] = ([], w)"
| "run_units unit w (u # us) =
     (case unit w u of (r, w1) \<Rightarrow>
        (case run_units unit w1 us of (rs, w2) \<Rightarrow> (r # rs, w2)))"

text \<open>
  The loop \<open>for i := 0; i < length; i++ { err = errors.Join(err, <-channel) }\<close>, on the
  values sent so far in their order of arrival. A panic among the goroutines ends the
  process; a receive on a channel nobody sends on any more never returns.
\<close>

fun receive :: "nat \<Rightarrow> error option \<Rightarrow> outcome list \<Rightarrow> error option run" where
  "receive 0 err channel = Returned err"
| "receive (Suc n) err [] = Blocked"
| "receive (Suc n) err (Panicked # channel) = Crashed"
| "receive (Suc n) err (Sent v # channel) = receive n (errors_Join [err, v]) channel"

text \<open>
  The loop \<open>for key := range manifest.Objects\<close> of \<open>downloadAssets\<close>. The map
  \<open>downloaded\<close> only ever holds \<open>true\<close>, so it is kept as the list of its keys. The
  result is that list at the end and the entries a goroutine was started for.
\<close>

fun range_Objects :: "string list \<Rightarrow> (string \<times> AssetEntry) list \<Rightarrow> string list \<times> AssetEntry list" where
  "range_Objects downloaded [] = (downloaded, [])"
| "range_Objects downloaded ((key, object) # rest) =
     (if Hash object \<in> set downloaded then range_Objects downloaded rest
      else case range_Objects (downloaded @ [Hash object]) rest of
             (downloaded', started) \<Rightarrow> (downloaded', object # started))"

text \<open>\<open>downloadAssets\<close> from \<open>channel := make(chan error)\<close> on.\<close>

definition assets_batch ::
  "digests \<Rightarrow> (AssetEntry list \<Rightarrow> AssetEntry list) \<Rightarrow> world \<Rightarrow> string \<Rightarrow> AssetManifest
     \<Rightarrow> (error option \<times> world) run" where
  "assets_batch ds sched w base manifest =
     (case range_Objects [] (Objects manifest) of
        (downloaded, started) \<Rightarrow>
          (case run_units (asset_unit ds base) w (sched started) of
             (channel, w1) \<Rightarrow>
               (case receive (length downloaded) None channel of
                  Crashed \<Rightarrow> Crashed
                | Blocked \<Rightarrow> Blocked
                | Returned err \<Rightarrow> Returned (err, w1))))"

text \<open>
  \<open>downloadAssets\<close>. Of its argument \<open>version\<close> it reads the field \<open>AssetIndex\<close> only,
  which is what the model takes. \<open>json.Unmarshal\<close> is the parameter \<open>unmarshal\<close>;
  \<open>sched\<close> is the order in which the goroutines run.
\<close>

definition downloadAssets ::
  "digests \<Rightarrow> (bytes \<Rightarrow> AssetManifest \<Rightarrow> error option \<times> AssetManifest)
     \<Rightarrow> (AssetEntry list \<Rightarrow> AssetEntry list) \<Rightarrow> world \<Rightarrow> string \<Rightarrow> AssetIndex
     \<Rightarrow> (error option \<times> world) run" where
  "downloadAssets ds unmarshal sched w base index =
     (let jsonPath = base @ ''/assets/indexes/'' @ AssetIndex_Id index @ ''.json'' in
      case downloadFileRaw ds w jsonPath (AssetIndex_Url index) (Some (AssetIndex_Sha1 index)) of
        (Some err, w1) \<Rightarrow> Returned (Some (wrap ''failed to download asset manifest'' err), w1)
      | (None, w1) \<Rightarrow>
     (case openFile w1 jsonPath of
        (Inl err, w2) \<Rightarrow> Returned (Some (wrap ''failed to open assets file'' err), w2)
      | (Inr file, w2) \<Rightarrow>
     (case read_all w2 file of
        (Inl err, w3) \<Rightarrow> Returned (Some (wrap ''failed to read assets file'' err), w3)
      | (Inr buffer, w3) \<Rightarrow>
     (case unmarshal buffer \<lparr>Objects = []\<rparr> of
        (Some err, _) \<Rightarrow> Returned (Some (wrap ''failed to parse assets file'' err), w3)
      | (None, manifest) \<Rightarrow> assets_batch ds sched w3 base manifest))))"

text \<open>
  The first loop of \<open>downloadLibraries\<close>: the libraries that pass \<open>testRules\<close>, each with
  the path appended to \<open>classpath\<close>, in the order of the slice.
\<close>

fun range_libraries ::
  "runtime \<Rightarrow> string \<Rightarrow> Library list \<Rightarrow> (string \<rightharpoonup> bool) \<Rightarrow> (string \<times> Library) list" where
  "range_libraries rt base [] features = []"
| "range_libraries rt base (library # rest) features =
     (if \<not> testRules rt (Library_Rules library) features
      then range_libraries rt base rest features
      else (base @ ''/library/'' @ Path (Downloads_Artifact library), library)
             # range_libraries rt base rest features)"

text \<open>\<open>downloadLibraries\<close>; a nil slice is the empty list.\<close>

definition downloadLibraries ::
  "digests \<Rightarrow> runtime \<Rightarrow> ((string \<times> Library) list \<Rightarrow> (string \<times> Library) list) \<Rightarrow> world
     \<Rightarrow> string \<Rightarrow> Library list \<Rightarrow> (string \<rightharpoonup> bool) \<Rightarrow> ((string list \<times> error option) \<times> world) run" where
  "downloadLibraries ds rt sched w base libraries features =
     (if length libraries = 0 then Returned (([], None), w)
      else
        let started = range_libraries rt base libraries features;
            classpath = map fst started
        in case run_units (library_unit ds) w (sched started) of
             (channel, w1) \<Rightarrow>
               (case receive (length classpath) None channel of
                  Crashed \<Rightarrow> Crashed
                | Blocked \<Rightarrow> Blocked
                | Returned err \<Rightarrow>
                    if err \<noteq> None then Returned (([], err), w1)
                    else Returned ((classpath, None), w1)))"

section \<open>Archive extractor (extractTar)\<close>








section \<open>Sample inputs\<close>

text \<open>
  Concrete values on which the theorems below are run: stand-ins for the two digests
  (of the right lengths; they tell contents of even length from contents of odd length),
  a world in which the operating system refuses nothing, and two HTTP responses.
\<close>

definition demo_digests :: digests where
  "demo_digests =
     \<lparr>sha1_hex = (\<lambda>bs. if even (length bs) then ''aaaaaaaaaaaaaaaaaaaaaaaaaaaaaaaaaaaaaaaa''
                       else ''cccccccccccccccccccccccccccccccccccccccc''),
      sha256_hex = (\<lambda>bs. if even (length bs)
                         then ''bbbbbbbbbbbbbbbbbbbbbbbbbbbbbbbbbbbbbbbbbbbbbbbbbbbbbbbbbbbbbbbb''
                         else ''dddddddddddddddddddddddddddddddddddddddddddddddddddddddddddddddd'')\<rparr>"

definition quiet :: "(string \<rightharpoonup> node) \<Rightarrow> (string \<rightharpoonup> response) \<Rightarrow> world" where
  "quiet fs nw = \<lparr>files = fs, denied = (\<lambda>op path. False), net = nw, trace = []\<rparr>"

definition ok_response :: "bytes \<Rightarrow> response" where
  "ok_response bs = \<lparr>StatusCode = 200, Status = ''200 OK'', Body = bs, Body_err = False\<rparr>"

definition not_found :: response where
  "not_found = \<lparr>StatusCode = 404, Status = ''404 Not Found'', Body = [], Body_err = False\<rparr>"

text \<open>
  A response whose body breaks off after two bytes, and a world whose file \<open>d/f\<close> holds
  two stale bytes.
\<close>

definition broken_response :: response where
  "broken_response = \<lparr>StatusCode = 200, Status = ''200 OK'', Body = [1, 2], Body_err = True\<rparr>"

definition stale_world :: "(string \<rightharpoonup> response) \<Rightarrow> world" where
  "stale_world nw = quiet [''d/f'' \<mapsto> File [9, 9] 420] nw"

text \<open>A world in which the file \<open>f\<close> cannot be removed.\<close>

definition locked_world :: world where
  "locked_world =
     \<lparr>files = [''f'' \<mapsto> File [1] 420], denied = (\<lambda>op path. op = OpRemove),
      net = Map.empty, trace = []\<rparr>"

text \<open>Whether an event of the trace is an HTTP request.\<close>

fun is_Get :: "event \<Rightarrow> bool" where
  "is_Get (EvGet url) = True"
| "is_Get _ = False"

definition demo_library :: "string \<Rightarrow> string \<Rightarrow> string \<Rightarrow> Library" where
  "demo_library path sha url =
     \<lparr>Downloads_Artifact = \<lparr>Path = path, Sha1 = sha, Size = 0, Url = url\<rparr>,
      Library_Name = path, Library_Rules = []\<rparr>"

definition linux :: runtime where
  "linux = \<lparr>GOOS = ''linux'', GOARCH = ''amd64''\<rparr>"

definition five_libraries :: "Library list" where
  "five_libraries =
     [demo_library ''1.jar'' ''aaaaaaaaaaaaaaaaaaaaaaaaaaaaaaaaaaaaaaaa'' ''u1'',
      demo_library ''2.jar'' ''aaaaaaaaaaaaaaaaaaaaaaaaaaaaaaaaaaaaaaaa'' ''u2'',
      demo_library ''3.jar'' ''aaaaaaaaaaaaaaaaaaaaaaaaaaaaaaaaaaaaaaaa'' ''u3'',
      demo_library ''4.jar'' ''aaaaaaaaaaaaaaaaaaaaaaaaaaaaaaaaaaaaaaaa'' ''u4'',
      demo_library ''5.jar'' ''aaaaaaaaaaaaaaaaaaaaaaaaaaaaaaaaaaaaaaaa'' ''u5'']"

definition five_world :: world where
  "five_world =
     quiet Map.empty
       [''u1'' \<mapsto> ok_response [1, 1], ''u2'' \<mapsto> not_found, ''u3'' \<mapsto> ok_response [3, 3],
        ''u4'' \<mapsto> not_found, ''u5'' \<mapsto> ok_response [5, 5]]"

text \<open>Three asset objects, two of them with the same hash.\<close>

definition three_objects :: "(string \<times> AssetEntry) list" where
  "three_objects =
     [(''a.png'', \<lparr>Hash = ''aaaaaaaaaaaaaaaaaaaaaaaaaaaaaaaaaaaaaaaa'', AssetEntry_Size = 2\<rparr>),
      (''b.png'', \<lparr>Hash = ''aaaaaaaaaaaaaaaaaaaaaaaaaaaaaaaaaaaaaaaa'', AssetEntry_Size = 2\<rparr>),
      (''c.png'', \<lparr>Hash = ''cccccccccccccccccccccccccccccccccccccccc'', AssetEntry_Size = 1\<rparr>)]"

text \<open>A world that serves the first of these hashes and not the other.\<close>

definition assets_world :: world where
  "assets_world =
     quiet Map.empty
       [URL_RESOURCES @ ''aa/aaaaaaaaaaaaaaaaaaaaaaaaaaaaaaaaaaaaaaaa'' \<mapsto> ok_response [1, 1],
        URL_RESOURCES @ ''cc/cccccccccccccccccccccccccccccccccccccccc'' \<mapsto> not_found]"


section \<open>Auxiliary facts\<close>

lemmas os_defs =
  fileExists_def openFile_def read_all_def createFileWithPerms_def createFile_def
  write_file_def os_Remove_def createParents_def createLink_def http_Get_def emit_def

lemma validateHash_frame:
  "net (snd (validateHash ds w path hash)) = net w \<and>
   denied (snd (validateHash ds w path hash)) = denied w"
  by (auto simp: validateHash_def hashFile_def os_defs Let_def
           split: option.splits node.splits sum.splits prod.splits bool.splits)

lemma createParents_frame:
  "net (snd (createParents w path)) = net w \<and> denied (snd (createParents w path)) = denied w"
  by (simp add: createParents_def emit_def Let_def)

lemma createFile_ok:
  assumes "createFile w path = (Inr file, w')"
  shows "file = path \<and> (\<exists>perms. files w' path = Some (File [] perms)) \<and>
         trace w' = trace w @ [EvCreate path] \<and> net w' = net w \<and> denied w' = denied w"
  using assms
  by (auto simp: createFile_def createFileWithPerms_def emit_def Let_def
           split: if_splits option.splits node.splits)

lemma range_Objects_Cons:
  "range_Objects d ((key, object) # rest) =
     (if Hash object \<in> set d then range_Objects d rest
      else (fst (range_Objects (d @ [Hash object]) rest),
            object # snd (range_Objects (d @ [Hash object]) rest)))"
  by (simp split: prod.splits)

lemma range_Objects_keys:
  "fst (range_Objects d objs) = d @ map Hash (snd (range_Objects d objs))"
  by (induction d objs rule: range_Objects.induct)
     (simp_all add: range_Objects_Cons del: range_Objects.simps(2))

lemma range_Objects_set:
  "set (map Hash (snd (range_Objects d objs))) = (Hash \<circ> snd) ` set objs - set d"
  by (induction d objs rule: range_Objects.induct)
     (auto simp: range_Objects_Cons simp del: range_Objects.simps(2))

lemma range_Objects_distinct:
  "distinct (map Hash (snd (range_Objects d objs)))"
proof (induction d objs rule: range_Objects.induct)
  case (1 downloaded)
  show ?case by simp
next
  case (2 downloaded key object rest)
  have "Hash object \<notin> set (map Hash (snd (range_Objects (downloaded @ [Hash object]) rest)))"
    unfolding range_Objects_set by simp
  with 2 show ?case
    by (simp add: range_Objects_Cons del: range_Objects.simps(2) set_map)
qed

lemma range_libraries_filter:
  "map snd (range_libraries rt base libs features)
     = filter (\<lambda>l. testRules rt (Library_Rules l) features) libs"
  by (induction libs) auto

lemma run_units_Cons:
  "run_units unit w (u # us) =
     (fst (unit w u) # fst (run_units unit (snd (unit w u)) us),
      snd (run_units unit (snd (unit w u)) us))"
  by (simp split: prod.splits)

lemma run_units_length: "length (fst (run_units unit w us)) = length us"
  by (induction us arbitrary: w) (simp_all add: run_units_Cons del: run_units.simps(2))






lemma flat_opt_simps [simp]: "flat_opt None = []" "flat_opt (Some e) = flat e"
  by (simp_all add: flat_opt_def)





lemma range_Features_iff:
  "range_Features m ks features \<longleftrightarrow>
     (\<forall>k \<in> set ks. \<exists>v. features k = Some v \<and> v = index_or_zero m k)"
  by (induction ks) (auto split: option.splits)

lemma range_rules_append:
  "range_rules rt action (xs @ [r]) features =
     (if testRule rt r features then Action r else range_rules rt action xs features)"
  by (induction xs arbitrary: action) simp_all

lemma range_rules_last_match:
  "range_rules rt ''disallow'' rules features = last_match rt rules features"
proof (induction rules rule: rev_induct)
  case Nil
  show ?case by (simp add: last_match_def)
next
  case (snoc r rules)
  then show ?case
    by (simp add: range_rules_append last_match_def)
qed

section \<open>The claims\<close>

text \<open>
  Claim C1. An empty rule sequence is allowed, whatever the features and the platform.
  For a non-empty sequence the decision starts as \<open>disallow\<close>, every matching rule
  overwrites it with its own action in the order of the sequence, so the value returned is
  whether the action of the last matching rule (or \<open>disallow\<close> when none matches) is
  \<open>allow\<close>.
\<close>

theorem testRules_last_match_wins:
  "testRules rt [] features = True \<and>
   (rules \<noteq> [] \<longrightarrow>
      testRules rt rules features = (last_match rt rules features = ''allow'')) \<and>
   testRules rt (rules @ [r]) features =
     (if testRule rt r features then Action r = ''allow''
      else range_rules rt ''disallow'' rules features = ''allow'')"
  by (simp add: testRules_def range_rules_last_match range_rules_append)

theorem testRules_last_match_wins_witness:
  "testRules \<lparr>GOOS = ''linux'', GOARCH = ''amd64''\<rparr>
     ([\<lparr>Action = ''disallow'', Features = [], Os_Arch = [], Os_Name = ''windows''\<rparr>]
      @ [\<lparr>Action = ''allow'', Features = [(''demo'', False)], Os_Arch = [], Os_Name = []\<rparr>])
     [''demo'' \<mapsto> False] = True"
  using testRules_last_match_wins
    [of "\<lparr>GOOS = ''linux'', GOARCH = ''amd64''\<rparr>" "[''demo'' \<mapsto> False]"
        "[\<lparr>Action = ''disallow'', Features = [], Os_Arch = [], Os_Name = ''windows''\<rparr>]"
        "\<lparr>Action = ''allow'', Features = [(''demo'', False)], Os_Arch = [], Os_Name = []\<rparr>"]
  by (simp add: testRule_def index_or_zero_def)

text \<open>
  Claim C2, as the code has it. In \<open>hashFile\<close> the length of the hash is looked at only
  after the file has been opened: when the open fails, its error is returned whatever
  the length; once the file is open, a length of 40 selects SHA-1, a length of 64 selects
  SHA-256, and any other length returns \<open>Unknown hash size n\<close> before a byte of the file
  is read. The JSON path has no such check: \<open>downloadJsonRaw\<close> always compares the SHA-1
  of the body with the hash, whatever its length.
\<close>

theorem hashFile_selects_after_open:
  "(openFile w path = (Inl err, w1) \<longrightarrow>
      hashFile ds w path sha = (Inl (wrap (''failed to hash file '' @ path) err), w1)) \<and>
   (openFile w path = (Inr file, w1) \<longrightarrow>
      (length sha = 40 \<longrightarrow>
         hashFile ds w path sha =
           (case read_all w1 file of
              (Inl err, w2) \<Rightarrow> (Inl (wrap (''failed to hash file '' @ path) err), w2)
            | (Inr content, w2) \<Rightarrow> (Inr (sha1_hex ds content = sha), w2))) \<and>
      (length sha = 64 \<longrightarrow>
         hashFile ds w path sha =
           (case read_all w1 file of
              (Inl err, w2) \<Rightarrow> (Inl (wrap (''failed to hash file '' @ path) err), w2)
            | (Inr content, w2) \<Rightarrow> (Inr (sha256_hex ds content = sha), w2))) \<and>
      (length sha \<noteq> 40 \<and> length sha \<noteq> 64 \<longrightarrow>
         hashFile ds w path sha =
           (Inl (New (''Unknown hash size '' @ decimal (length sha))), w1))) \<and>
   (files w path = None \<longrightarrow>
      validateHash ds w path sha = (Inr False, emit (EvStat path) w)) \<and>
   (verify_buffer ds url (Some sha) buffer = None \<longleftrightarrow> sha1_hex ds buffer = sha) \<and>
   (length (sha1_hex ds buffer) = 40 \<and> length sha \<noteq> 40 \<longrightarrow>
      verify_buffer ds url (Some sha) buffer =
        Some (New (''failed to verify hash of '' @ url @ '', got '' @ sha1_hex ds buffer
                   @ '' and expected '' @ sha)))"
  by (auto simp: hashFile_def select_digest_def verify_buffer_def validateHash_def
        fileExists_def Let_def)

theorem hashFile_selects_after_open_witness:
  "hashFile demo_digests (quiet [''p'' \<mapsto> File [1, 2] 420] Map.empty) ''p'' ''abc'' =
     (Inl (New ''Unknown hash size 3''),
      emit (EvOpen ''p'') (quiet [''p'' \<mapsto> File [1, 2] 420] Map.empty)) \<and>
   fst (hashFile demo_digests (quiet [''p'' \<mapsto> File [1, 2] 420] Map.empty) ''p''
          ''aaaaaaaaaaaaaaaaaaaaaaaaaaaaaaaaaaaaaaaa'') = Inr True \<and>
   fst (hashFile demo_digests (quiet [''p'' \<mapsto> File [1, 2] 420] Map.empty) ''p''
          ''bbbbbbbbbbbbbbbbbbbbbbbbbbbbbbbbbbbbbbbbbbbbbbbbbbbbbbbbbbbbbbbb'') = Inr True \<and>
   hashFile demo_digests (quiet Map.empty Map.empty) ''p'' ''abc'' =
     (Inl (Join [New ''failed to hash file p'', PathError ''open'' ''p'']),
      emit (EvOpen ''p'') (quiet Map.empty Map.empty)) \<and>
   validateHash demo_digests (quiet Map.empty Map.empty) ''p'' ''abc'' =
     (Inr False, emit (EvStat ''p'') (quiet Map.empty Map.empty)) \<and>
   verify_buffer demo_digests ''u'' (Some ''abc'') [1, 2] =
     Some (New ''failed to verify hash of u, got aaaaaaaaaaaaaaaaaaaaaaaaaaaaaaaaaaaaaaaa and expected abc'')"
  using hashFile_selects_after_open
    [of "quiet [''p'' \<mapsto> File [1, 2] 420] Map.empty" "''p''" _
        "emit (EvOpen ''p'') (quiet [''p'' \<mapsto> File [1, 2] 420] Map.empty)"
        demo_digests "''abc''" "''p''" "''u''" "[1, 2]"]
    hashFile_selects_after_open
    [of "quiet [''p'' \<mapsto> File [1, 2] 420] Map.empty" "''p''" _
        "emit (EvOpen ''p'') (quiet [''p'' \<mapsto> File [1, 2] 420] Map.empty)"
        demo_digests "''aaaaaaaaaaaaaaaaaaaaaaaaaaaaaaaaaaaaaaaa''" "''p''"]
    hashFile_selects_after_open
    [of "quiet [''p'' \<mapsto> File [1, 2] 420] Map.empty" "''p''" _
        "emit (EvOpen ''p'') (quiet [''p'' \<mapsto> File [1, 2] 420] Map.empty)"
        demo_digests "''bbbbbbbbbbbbbbbbbbbbbbbbbbbbbbbbbbbbbbbbbbbbbbbbbbbbbbbbbbbbbbbb''" "''p''"]
    hashFile_selects_after_open
    [of "quiet Map.empty Map.empty" "''p''" "PathError ''open'' ''p''"
        "emit (EvOpen ''p'') (quiet Map.empty Map.empty)"
        demo_digests "''abc''"]
  by (simp add: openFile_def read_all_def emit_def quiet_def demo_digests_def decimal.simps
        wrap_def)

text \<open>
  Claim C2 as stated fails. With a hash of three characters and no file at the path,
  \<open>downloadFileRaw\<close> creates the file, performs the GET and writes the body before the
  hash size is rejected, and \<open>downloadJsonRaw\<close> performs the GET and then reports a failed
  verification, not an unsupported format.
\<close>

theorem hash_length_counterexample:
  "fst (downloadFileRaw demo_digests (quiet Map.empty [''u'' \<mapsto> ok_response [7]])
          ''p'' ''u'' (Some ''abc''))
     = Some (wrap ''could not validate hash of p''
              (wrap ''could not validate hash of p'' (New ''Unknown hash size 3''))) \<and>
   trace (snd (downloadFileRaw demo_digests (quiet Map.empty [''u'' \<mapsto> ok_response [7]])
          ''p'' ''u'' (Some ''abc'')))
     = [EvStat ''p'', EvMkdirAll ''.'', EvCreate ''p'', EvGet ''u'', EvWrite ''p'',
        EvStat ''p'', EvOpen ''p''] \<and>
   downloadJsonRaw demo_digests (\<lambda>buffer s. (None, s))
       (quiet Map.empty [''u'' \<mapsto> ok_response [7]]) ''u'' (Some ''abc'') ()
     = ((Some (New ''failed to verify hash of u, got cccccccccccccccccccccccccccccccccccccccc and expected abc''), ()),
        emit (EvGet ''u'') (quiet Map.empty [''u'' \<mapsto> ok_response [7]]))"
  by (simp add: downloadFileRaw_def download_uncached_def validateHash_def hashFile_def
        copy_body_def downloadJsonRaw_def verify_buffer_def select_digest_def
        os_defs filepath_Dir_def strip_slashes_def ancestors_def is_dir_or_free_def
        quiet_def ok_response_def demo_digests_def decimal.simps wrap_def Let_def)

text \<open>
  Claim C3, as the code has it. \<open>downloadAssets\<close> starts exactly one goroutine, and so
  one call of \<open>downloadFile\<close>, for every distinct \<open>Hash\<close> among the objects (the hash is
  always there; no path takes its place), and \<open>len(downloaded)\<close> is the number of
  distinct hashes. \<open>downloadLibraries\<close> does not deduplicate: it starts one goroutine for
  every library that \<open>testRules\<close> lets through.
\<close>

theorem fetches_per_batch:
  "distinct (map Hash (snd (range_Objects [] objs))) \<and>
   set (map Hash (snd (range_Objects [] objs))) = (Hash \<circ> snd) ` set objs \<and>
   length (fst (range_Objects [] objs)) = card ((Hash \<circ> snd) ` set objs) \<and>
   (mset (sched (snd (range_Objects [] objs))) = mset (snd (range_Objects [] objs)) \<longrightarrow>
      length (fst (run_units (asset_unit ds base) w (sched (snd (range_Objects [] objs)))))
        = card ((Hash \<circ> snd) ` set objs)) \<and>
   map snd (range_libraries rt base libs features)
     = filter (\<lambda>l. testRules rt (Library_Rules l) features) libs \<and>
   (mset (sched' (range_libraries rt base libs features))
      = mset (range_libraries rt base libs features) \<longrightarrow>
      length (fst (run_units (library_unit ds) w' (sched' (range_libraries rt base libs features))))
        = length (filter (\<lambda>l. testRules rt (Library_Rules l) features) libs))"
proof -
  have keys: "length (fst (range_Objects [] objs)) = length (snd (range_Objects [] objs))"
    using range_Objects_keys [of "[]" objs] by simp
  have "length (snd (range_Objects [] objs)) = length (map Hash (snd (range_Objects [] objs)))"
    by simp
  also have "\<dots> = card (set (map Hash (snd (range_Objects [] objs))))"
    using distinct_card [OF range_Objects_distinct [of "[]" objs]] by simp
  also have "\<dots> = card ((Hash \<circ> snd) ` set objs)"
    using range_Objects_set [of "[]" objs] by simp
  finally have started: "length (snd (range_Objects [] objs)) = card ((Hash \<circ> snd) ` set objs)" .
  have assets: "length (fst (run_units (asset_unit ds base) w (sched (snd (range_Objects [] objs)))))
        = card ((Hash \<circ> snd) ` set objs)"
    if "mset (sched (snd (range_Objects [] objs))) = mset (snd (range_Objects [] objs))"
    using started size_mset [of "sched (snd (range_Objects [] objs))"] that
    by (simp add: run_units_length)
  have libraries: "length (fst (run_units (library_unit ds) w'
                     (sched' (range_libraries rt base libs features))))
        = length (filter (\<lambda>l. testRules rt (Library_Rules l) features) libs)"
    if "mset (sched' (range_libraries rt base libs features))
          = mset (range_libraries rt base libs features)"
  proof -
    have "length (sched' (range_libraries rt base libs features))
            = length (range_libraries rt base libs features)"
      using that by (metis size_mset)
    also have "\<dots> = length (map snd (range_libraries rt base libs features))"
      by simp
    finally show ?thesis
      by (simp add: run_units_length range_libraries_filter)
  qed
  show ?thesis
    using range_Objects_distinct [of "[]" objs] range_Objects_set [of "[]" objs]
      keys started assets libraries
    by (simp add: range_libraries_filter)
qed

theorem fetches_per_batch_witness:
  "mset (rev (snd (range_Objects [] three_objects))) = mset (snd (range_Objects [] three_objects)) \<and>
   length (fst (run_units (asset_unit demo_digests ''b'') assets_world
                  (rev (snd (range_Objects [] three_objects))))) = 2 \<and>
   length (fst (run_units (library_unit demo_digests) five_world
                  (rev (range_libraries linux ''b'' five_libraries Map.empty)))) = 5"
proof -
  have "card ((Hash \<circ> snd) ` set three_objects) = 2"
    by (simp add: three_objects_def)
  moreover have "length (filter (\<lambda>l. testRules linux (Library_Rules l) Map.empty) five_libraries) = 5"
    by (simp add: five_libraries_def demo_library_def testRules_def)
  ultimately show ?thesis
    using fetches_per_batch
      [of three_objects rev demo_digests "''b''" assets_world linux five_libraries
          Map.empty rev five_world]
    by simp
qed

text \<open>
  Claim C3 as stated fails for \<open>downloadLibraries\<close>: of three libraries, two with the
  same hash and one with another, each gets its own goroutine and its own GET.
\<close>

theorem library_fetches_counterexample:
  "length (range_libraries linux ''b''
             [demo_library ''x.jar'' ''aaaaaaaaaaaaaaaaaaaaaaaaaaaaaaaaaaaaaaaa'' ''ux'',
              demo_library ''y.jar'' ''aaaaaaaaaaaaaaaaaaaaaaaaaaaaaaaaaaaaaaaa'' ''uy'',
              demo_library ''z.jar'' ''cccccccccccccccccccccccccccccccccccccccc'' ''uz''] Map.empty) = 3 \<and>
   (case downloadLibraries demo_digests linux id
           (quiet Map.empty [''ux'' \<mapsto> ok_response [1, 1], ''uy'' \<mapsto> ok_response [1, 1],
                             ''uz'' \<mapsto> ok_response [2]])
           ''b''
           [demo_library ''x.jar'' ''aaaaaaaaaaaaaaaaaaaaaaaaaaaaaaaaaaaaaaaa'' ''ux'',
            demo_library ''y.jar'' ''aaaaaaaaaaaaaaaaaaaaaaaaaaaaaaaaaaaaaaaa'' ''uy'',
            demo_library ''z.jar'' ''cccccccccccccccccccccccccccccccccccccccc'' ''uz''] Map.empty of
      Returned ((classpath, err), w) \<Rightarrow>
        (classpath, err, filter is_Get (trace w))
    | _ \<Rightarrow> ([], None, []))
     = ([''b/library/x.jar'', ''b/library/y.jar'', ''b/library/z.jar''], None,
        [EvGet ''ux'', EvGet ''uy'', EvGet ''uz''])"
  by code_simp



text \<open>
  Claim C5. When the path holds a readable file whose digest, by the algorithm the length
  of the hash selects, is the expected hash, \<open>downloadFileRaw\<close> returns nil at once: the
  file system is unchanged, and the only calls made are the stat, the open and the read
  of that file; no HTTP request is issued.
\<close>

theorem downloadFileRaw_cache_hit:
  assumes "files w path = Some (File content perms)"
    and "\<not> denied w OpStat path" and "\<not> denied w OpOpen path" and "\<not> denied w OpRead path"
    and "select_digest ds (length hash) = Some digest"
    and "digest content = hash"
  shows "downloadFileRaw ds w path url (Some hash) =
           (None, w\<lparr>trace := trace w @ [EvStat path, EvOpen path, EvRead path]\<rparr>)"
  using assms
  by (simp add: downloadFileRaw_def validateHash_def hashFile_def os_defs)

theorem downloadFileRaw_cache_hit_witness:
  "downloadFileRaw demo_digests (quiet [''lib/a.jar'' \<mapsto> File [1, 2] 420] Map.empty)
      ''lib/a.jar'' ''http://host/a.jar'' (Some ''aaaaaaaaaaaaaaaaaaaaaaaaaaaaaaaaaaaaaaaa'')
   = (None, (quiet [''lib/a.jar'' \<mapsto> File [1, 2] 420] Map.empty)
              \<lparr>trace := [EvStat ''lib/a.jar'', EvOpen ''lib/a.jar'', EvRead ''lib/a.jar'']\<rparr>)"
  using downloadFileRaw_cache_hit
    [of "quiet [''lib/a.jar'' \<mapsto> File [1, 2] 420] Map.empty" "''lib/a.jar''" "[1, 2]" 420
        demo_digests "''aaaaaaaaaaaaaaaaaaaaaaaaaaaaaaaaaaaaaaaa''" "sha1_hex demo_digests" "''http://host/a.jar''"]
  by (simp add: quiet_def demo_digests_def select_digest_def)

text \<open>
  Claim C6. For a readable file whose digest differs from the expected hash,
  \<open>validateHash\<close> returns false without error and the file is gone afterwards; when the
  removal is refused it returns the error \<open>could not delete corrupted file\<close> instead. For
  a file whose digest matches it returns true and changes nothing in the file system, so
  a second call returns true again.
\<close>

theorem validateHash_heals:
  assumes "files w path = Some (File content perms)"
    and "\<not> denied w OpStat path" and "\<not> denied w OpOpen path" and "\<not> denied w OpRead path"
    and "select_digest ds (length hash) = Some digest"
  shows "(digest content \<noteq> hash \<and> \<not> denied w OpRemove path \<longrightarrow>
            fst (validateHash ds w path hash) = Inr False \<and>
            files (snd (validateHash ds w path hash)) = (files w)(path := None)) \<and>
         (digest content \<noteq> hash \<and> denied w OpRemove path \<longrightarrow>
            fst (validateHash ds w path hash) =
              Inl (wrap (''could not delete corrupted file '' @ path) (PathError ''remove'' path)) \<and>
            files (snd (validateHash ds w path hash)) = files w) \<and>
         (digest content = hash \<longrightarrow>
            validateHash ds w path hash =
              (Inr True, w\<lparr>trace := trace w @ [EvStat path, EvOpen path, EvRead path]\<rparr>) \<and>
            fst (validateHash ds (snd (validateHash ds w path hash)) path hash) = Inr True)"
  using assms
  by (simp add: validateHash_def hashFile_def os_defs)

theorem validateHash_heals_witness:
  "fst (validateHash demo_digests (quiet [''f'' \<mapsto> File [1] 420] Map.empty) ''f'' ''aaaaaaaaaaaaaaaaaaaaaaaaaaaaaaaaaaaaaaaa'')
     = Inr False \<and>
   files (snd (validateHash demo_digests (quiet [''f'' \<mapsto> File [1] 420] Map.empty) ''f'' ''aaaaaaaaaaaaaaaaaaaaaaaaaaaaaaaaaaaaaaaa''))
     ''f'' = None \<and>
   fst (validateHash demo_digests locked_world ''f'' ''aaaaaaaaaaaaaaaaaaaaaaaaaaaaaaaaaaaaaaaa'')
     = Inl (Join [New ''could not delete corrupted file f'', PathError ''remove'' ''f'']) \<and>
   files (snd (validateHash demo_digests locked_world ''f'' ''aaaaaaaaaaaaaaaaaaaaaaaaaaaaaaaaaaaaaaaa'')) ''f''
     = Some (File [1] 420) \<and>
   fst (validateHash demo_digests (quiet [''f'' \<mapsto> File [1] 420] Map.empty) ''f'' ''cccccccccccccccccccccccccccccccccccccccc'')
     = Inr True \<and>
   files (snd (validateHash demo_digests (quiet [''f'' \<mapsto> File [1] 420] Map.empty) ''f'' ''cccccccccccccccccccccccccccccccccccccccc''))
     ''f'' = Some (File [1] 420)"
  using validateHash_heals
    [of "quiet [''f'' \<mapsto> File [1] 420] Map.empty" "''f''" "[1]" 420
        demo_digests "''aaaaaaaaaaaaaaaaaaaaaaaaaaaaaaaaaaaaaaaa''" "sha1_hex demo_digests"]
    validateHash_heals
    [of locked_world "''f''" "[1]" 420 demo_digests "''aaaaaaaaaaaaaaaaaaaaaaaaaaaaaaaaaaaaaaaa''" "sha1_hex demo_digests"]
    validateHash_heals
    [of "quiet [''f'' \<mapsto> File [1] 420] Map.empty" "''f''" "[1]" 420
        demo_digests "''cccccccccccccccccccccccccccccccccccccccc''" "sha1_hex demo_digests"]
  by (simp add: quiet_def locked_world_def demo_digests_def select_digest_def wrap_def)

text \<open>
  Claim C7. After a successful GET, \<open>downloadJsonRaw\<close> hashes the raw body first. On a
  mismatch it returns the verification error and the structure the caller passed,
  whatever \<open>json.Unmarshal\<close> would have done to it. Only when there is no hash or the
  hash matches is the body decoded, and a decoding error is joined with a message that
  names the URL.
\<close>

theorem downloadJsonRaw_verifies_then_parses:
  assumes "net w url = Some r" and "StatusCode r div 100 = 2" and "\<not> Body_err r"
  shows "(sha1_hex ds (Body r) \<noteq> h \<longrightarrow>
            downloadJsonRaw ds unmarshal w url (Some h) structure =
              ((Some (New (''failed to verify hash of '' @ url @ '', got '' @ sha1_hex ds (Body r)
                           @ '' and expected '' @ h)), structure), emit (EvGet url) w)) \<and>
         (hash = None \<or> hash = Some (sha1_hex ds (Body r)) \<longrightarrow>
            downloadJsonRaw ds unmarshal w url hash structure =
              ((case unmarshal (Body r) structure of
                  (Some err, s') \<Rightarrow> (Some (wrap (''Failed to parse JSON of '' @ url) err), s')
                | (None, s') \<Rightarrow> (None, s')),
               emit (EvGet url) w))"
  using assms
  by (auto simp: downloadJsonRaw_def verify_buffer_def http_Get_def Let_def
           split: prod.splits option.splits)

theorem downloadJsonRaw_verifies_then_parses_witness:
  "downloadJsonRaw demo_digests (\<lambda>buffer s. (None, length buffer))
      (quiet Map.empty [''u'' \<mapsto> ok_response [1, 2]]) ''u'' (Some ''cccccccccccccccccccccccccccccccccccccccc'') (0::nat)
     = ((Some (New ''failed to verify hash of u, got aaaaaaaaaaaaaaaaaaaaaaaaaaaaaaaaaaaaaaaa and expected cccccccccccccccccccccccccccccccccccccccc''), 0),
        emit (EvGet ''u'') (quiet Map.empty [''u'' \<mapsto> ok_response [1, 2]])) \<and>
   downloadJsonRaw demo_digests (\<lambda>buffer s. (None, length buffer))
      (quiet Map.empty [''u'' \<mapsto> ok_response [1, 2]]) ''u'' (Some ''aaaaaaaaaaaaaaaaaaaaaaaaaaaaaaaaaaaaaaaa'') (0::nat)
     = ((None, 2), emit (EvGet ''u'') (quiet Map.empty [''u'' \<mapsto> ok_response [1, 2]])) \<and>
   downloadJsonRaw demo_digests (\<lambda>buffer s. (Some (DecodeError ''json''), s))
      (quiet Map.empty [''u'' \<mapsto> ok_response [1, 2]]) ''u'' None (0::nat)
     = ((Some (Join [New ''Failed to parse JSON of u'', DecodeError ''json'']), 0),
        emit (EvGet ''u'') (quiet Map.empty [''u'' \<mapsto> ok_response [1, 2]]))"
  using downloadJsonRaw_verifies_then_parses
    [of "quiet Map.empty [''u'' \<mapsto> ok_response [1, 2]]" "''u''" "ok_response [1, 2]"
        demo_digests "''cccccccccccccccccccccccccccccccccccccccc''" "\<lambda>buffer s. (None, length buffer)" "0::nat" "Some ''aaaaaaaaaaaaaaaaaaaaaaaaaaaaaaaaaaaaaaaa''"]
    downloadJsonRaw_verifies_then_parses
    [of "quiet Map.empty [''u'' \<mapsto> ok_response [1, 2]]" "''u''" "ok_response [1, 2]"
        demo_digests "''cccccccccccccccccccccccccccccccccccccccc''" "\<lambda>buffer s. (Some (DecodeError ''json''), s)" "0::nat" None]
  by (simp add: quiet_def demo_digests_def ok_response_def wrap_def)

text \<open>
  Claim C8. A rule matches exactly when every key of its \<open>Features\<close> map is in the
  feature set with the same boolean, its \<open>Os.Arch\<close> is unset or is the current
  architecture, and its \<open>Os.Name\<close> is unset or is the current operating system. A rule
  that requires a key the feature set does not have never matches, and the loop of
  \<open>testRules\<close> then leaves the running decision as it was.
\<close>

theorem testRule_iff:
  "(testRule rt r features \<longleftrightarrow>
     (\<forall>k \<in> dom (map_of (Features r)). features k = map_of (Features r) k) \<and>
     (Os_Arch r = [] \<or> Os_Arch r = GOARCH rt) \<and>
     (Os_Name r = [] \<or> Os_Name r = GOOS rt)) \<and>
   ((\<exists>k \<in> dom (map_of (Features r)). features k = None) \<longrightarrow>
      \<not> testRule rt r features \<and>
      (\<forall>action rest. range_rules rt action (r # rest) features
                        = range_rules rt action rest features))"
proof -
  have feat: "range_Features (map_of (Features r)) (map fst (Features r)) features \<longleftrightarrow>
      (\<forall>k \<in> dom (map_of (Features r)). features k = map_of (Features r) k)"
  proof -
    have "(\<exists>v. features k = Some v \<and> v = index_or_zero (map_of (Features r)) k)
            \<longleftrightarrow> features k = map_of (Features r) k"
      if "k \<in> dom (map_of (Features r))" for k
      using that by (auto simp: index_or_zero_def)
    then show ?thesis
      unfolding range_Features_iff by (simp add: dom_map_of_conv_image_fst)
  qed
  have main: "testRule rt r features \<longleftrightarrow>
     (\<forall>k \<in> dom (map_of (Features r)). features k = map_of (Features r) k) \<and>
     (Os_Arch r = [] \<or> Os_Arch r = GOARCH rt) \<and>
     (Os_Name r = [] \<or> Os_Name r = GOOS rt)"
    unfolding testRule_def feat by auto
  have absent: "\<not> testRule rt r features" if "\<exists>k \<in> dom (map_of (Features r)). features k = None"
  proof -
    from that obtain k where k: "k \<in> dom (map_of (Features r))" "features k = None"
      by blast
    then have "features k \<noteq> map_of (Features r) k" by auto
    with k(1) show ?thesis unfolding main by blast
  qed
  have unchanged: "range_rules rt action (r # rest) features = range_rules rt action rest features"
    if "\<not> testRule rt r features" for action rest
    using that by simp
  show ?thesis
    using main absent unchanged by blast
qed

theorem testRule_iff_witness:
  "\<not> testRule \<lparr>GOOS = ''linux'', GOARCH = ''amd64''\<rparr>
       \<lparr>Action = ''allow'', Features = [(''demo'', True)], Os_Arch = [], Os_Name = []\<rparr> Map.empty \<and>
   range_rules \<lparr>GOOS = ''linux'', GOARCH = ''amd64''\<rparr> ''disallow''
       [\<lparr>Action = ''allow'', Features = [(''demo'', True)], Os_Arch = [], Os_Name = []\<rparr>] Map.empty
     = ''disallow''"
  using testRule_iff
    [of "\<lparr>GOOS = ''linux'', GOARCH = ''amd64''\<rparr>"
        "\<lparr>Action = ''allow'', Features = [(''demo'', True)], Os_Arch = [], Os_Name = []\<rparr>" Map.empty]
  by simp



text \<open>
  Claim C10. When \<open>downloadFileRaw\<close> is not stopped by a valid cached file, the parents
  and the file are created, and the GET answers with a status outside 2xx, it returns
  the error carrying the status line; the destination is then an empty file, created (or
  truncated) before the request was made, and nothing removes it. The same file is left
  when the GET itself fails. Only a failed copy of the body is followed by \<open>os.Remove\<close>.
\<close>

theorem downloadFileRaw_failed_status_keeps_file:
  assumes miss: "hash = None \<and> w0 = w \<or>
                 (\<exists>h. hash = Some h \<and> validateHash ds w path h = (Inr False, w0))"
    and parents: "createParents w0 (filepath_Dir path) = (None, w1)"
    and created: "createFile w1 path = (Inr file, w2)"
  shows "(net w url = Some r \<and> StatusCode r div 100 \<noteq> 2 \<longrightarrow>
            downloadFileRaw ds w path url hash =
              (Some (New (''failed to download '' @ url @ '': '' @ Status r)), emit (EvGet url) w2) \<and>
            (\<exists>perms. files (emit (EvGet url) w2) path = Some (File [] perms)) \<and>
            trace (emit (EvGet url) w2) = trace w1 @ [EvCreate path, EvGet url]) \<and>
         (net w url = None \<longrightarrow>
            downloadFileRaw ds w path url hash =
              (Some (wrap (''failed to download '' @ url) (UrlError url)), emit (EvGet url) w2) \<and>
            (\<exists>perms. files (emit (EvGet url) w2) path = Some (File [] perms))) \<and>
         (net w url = Some r \<and> StatusCode r div 100 = 2 \<and> (Body_err r \<or> denied w OpWrite path)
            \<and> \<not> denied w OpRemove path \<longrightarrow>
            (\<exists>err. fst (downloadFileRaw ds w path url hash)
                     = Some (wrap (''failed to download '' @ url) err)) \<and>
            files (snd (downloadFileRaw ds w path url hash)) path = None)"
proof -
  have w0: "net w0 = net w \<and> denied w0 = denied w"
    using miss validateHash_frame [of ds w path] by (metis snd_conv)
  have w1: "net w1 = net w \<and> denied w1 = denied w"
    using parents createParents_frame [of w0 "filepath_Dir path"] w0 by simp
  from createFile_ok [OF created]
  obtain perms where w2: "file = path" "files w2 path = Some (File [] perms)"
      "trace w2 = trace w1 @ [EvCreate path]" "net w2 = net w" "denied w2 = denied w"
    using w1 by auto
  have start: "downloadFileRaw ds w path url hash = download_uncached ds w0 path url hash"
    using miss by (auto simp: downloadFileRaw_def)
  have got: "http_Get w2 url = (Inr r, emit (EvGet url) w2)" if "net w url = Some r"
    using that w2 by (simp add: http_Get_def)
  have lost: "http_Get w2 url = (Inl (UrlError url), emit (EvGet url) w2)" if "net w url = None"
    using that w2 by (simp add: http_Get_def)
  have bad: "download_uncached ds w0 path url hash =
               (Some (New (''failed to download '' @ url @ '': '' @ Status r)), emit (EvGet url) w2)"
    if "net w url = Some r" "StatusCode r div 100 \<noteq> 2"
    using that parents created got by (simp add: download_uncached_def)
  have none: "download_uncached ds w0 path url hash =
               (Some (wrap (''failed to download '' @ url) (UrlError url)), emit (EvGet url) w2)"
    if "net w url = None"
    using that parents created lost by (simp add: download_uncached_def)
  have broken: "(\<exists>err. fst (download_uncached ds w0 path url hash)
                     = Some (wrap (''failed to download '' @ url) err)) \<and>
            files (snd (download_uncached ds w0 path url hash)) path = None"
    if "net w url = Some r" "StatusCode r div 100 = 2" "Body_err r \<or> denied w OpWrite path"
       "\<not> denied w OpRemove path"
    using that parents created got w2
    by (auto simp: download_uncached_def copy_body_def write_file_def os_Remove_def emit_def Let_def)
  show ?thesis
    using start bad none broken w2 by (simp add: emit_def)
qed

theorem downloadFileRaw_failed_status_keeps_file_witness:
  "fst (downloadFileRaw demo_digests (stale_world [''u'' \<mapsto> not_found]) ''d/f'' ''u''
          (Some ''cccccccccccccccccccccccccccccccccccccccc''))
     = Some (New ''failed to download u: 404 Not Found'') \<and>
   files (snd (downloadFileRaw demo_digests (stale_world [''u'' \<mapsto> not_found]) ''d/f'' ''u''
          (Some ''cccccccccccccccccccccccccccccccccccccccc''))) ''d/f''
     = Some (File [] 438) \<and>
   trace (snd (downloadFileRaw demo_digests (stale_world [''u'' \<mapsto> not_found]) ''d/f'' ''u''
          (Some ''cccccccccccccccccccccccccccccccccccccccc'')))
     = [EvStat ''d/f'', EvOpen ''d/f'', EvRead ''d/f'', EvRemove ''d/f'', EvMkdirAll ''d'',
        EvCreate ''d/f'', EvGet ''u''] \<and>
   fst (downloadFileRaw demo_digests (stale_world Map.empty) ''d/f'' ''u'' (Some ''cccccccccccccccccccccccccccccccccccccccc''))
     = Some (Join [New ''failed to download u'', UrlError ''u'']) \<and>
   files (snd (downloadFileRaw demo_digests (stale_world Map.empty) ''d/f'' ''u''
          (Some ''cccccccccccccccccccccccccccccccccccccccc''))) ''d/f''
     = Some (File [] 438) \<and>
   fst (downloadFileRaw demo_digests (stale_world [''u'' \<mapsto> broken_response]) ''d/f'' ''u''
          (Some ''cccccccccccccccccccccccccccccccccccccccc''))
     = Some (Join [New ''failed to download u'', UrlError ''u'']) \<and>
   files (snd (downloadFileRaw demo_digests (stale_world [''u'' \<mapsto> broken_response]) ''d/f'' ''u''
          (Some ''cccccccccccccccccccccccccccccccccccccccc''))) ''d/f''
     = None"
proof -
  define w0 where "w0 nw = snd (validateHash demo_digests (stale_world nw) ''d/f'' ''cccccccccccccccccccccccccccccccccccccccc'')"
    for nw
  define w1 where "w1 nw = snd (createParents (w0 nw) ''d'')" for nw
  define w2 where "w2 nw = snd (createFile (w1 nw) ''d/f'')" for nw
  have w0: "w0 nw = \<lparr>files = Map.empty, denied = (\<lambda>op path. False), net = nw,
                  trace = [EvStat ''d/f'', EvOpen ''d/f'', EvRead ''d/f'', EvRemove ''d/f'']\<rparr>"
    for nw
    by (simp add: w0_def stale_world_def quiet_def demo_digests_def validateHash_def
          hashFile_def select_digest_def os_defs)
  have miss: "Some ''cccccccccccccccccccccccccccccccccccccccc'' = None \<and> w0 nw = stale_world nw \<or>
      (\<exists>h. Some ''cccccccccccccccccccccccccccccccccccccccc'' = Some h \<and>
           validateHash demo_digests (stale_world nw) ''d/f'' h = (Inr False, w0 nw))"
    for nw
    by (simp add: w0_def stale_world_def quiet_def demo_digests_def validateHash_def
          hashFile_def select_digest_def os_defs)
  have dir: "filepath_Dir ''d/f'' = ''d''"
    by (simp add: filepath_Dir_def strip_slashes_def)
  have w1: "w1 nw = \<lparr>files = [''d'' \<mapsto> Dir], denied = (\<lambda>op path. False), net = nw,
                  trace = [EvStat ''d/f'', EvOpen ''d/f'', EvRead ''d/f'', EvRemove ''d/f'',
                           EvMkdirAll ''d'']\<rparr>"
    for nw
    unfolding w1_def
    by (simp add: w0 createParents_def emit_def strip_slashes_def ancestors_def is_dir_or_free_def)
  have parents: "createParents (w0 nw) (filepath_Dir ''d/f'') = (None, w1 nw)" for nw
    unfolding dir w1_def
    by (simp add: w0 createParents_def emit_def strip_slashes_def ancestors_def is_dir_or_free_def)
  have created: "createFile (w1 nw) ''d/f'' = (Inr ''d/f'', w2 nw)" for nw
    unfolding w2_def by (simp add: w1 createFile_def createFileWithPerms_def emit_def)
  have w2: "files (w2 nw) ''d/f'' = Some (File [] 438)" for nw
    unfolding w2_def by (simp add: w1 createFile_def createFileWithPerms_def emit_def)
  have env: "net (stale_world nw) = nw" "\<not> denied (stale_world nw) op path" for nw op path
    by (simp_all add: stale_world_def quiet_def)
  note facts = downloadFileRaw_failed_status_keeps_file [OF miss parents created]
  have refused: "downloadFileRaw demo_digests (stale_world [''u'' \<mapsto> not_found]) ''d/f'' ''u''
                   (Some ''cccccccccccccccccccccccccccccccccccccccc'')
                 = (Some (New ''failed to download u: 404 Not Found''),
                    emit (EvGet ''u'') (w2 [''u'' \<mapsto> not_found]))"
    and refused_trace: "trace (emit (EvGet ''u'') (w2 [''u'' \<mapsto> not_found]))
                 = trace (w1 [''u'' \<mapsto> not_found]) @ [EvCreate ''d/f'', EvGet ''u'']"
    using facts [of "[''u'' \<mapsto> not_found]" "''u''" not_found]
    by (simp_all add: env not_found_def)
  have unreachable: "downloadFileRaw demo_digests (stale_world Map.empty) ''d/f'' ''u''
                   (Some ''cccccccccccccccccccccccccccccccccccccccc'')
                 = (Some (wrap ''failed to download u'' (UrlError ''u'')),
                    emit (EvGet ''u'') (w2 Map.empty))"
    using facts [of Map.empty "''u''"] by (simp add: env)
  have cut_off: "(\<exists>err. fst (downloadFileRaw demo_digests (stale_world [''u'' \<mapsto> broken_response])
                              ''d/f'' ''u'' (Some ''cccccccccccccccccccccccccccccccccccccccc''))
                     = Some (wrap ''failed to download u'' err)) \<and>
                 files (snd (downloadFileRaw demo_digests (stale_world [''u'' \<mapsto> broken_response])
                              ''d/f'' ''u'' (Some ''cccccccccccccccccccccccccccccccccccccccc''))) ''d/f'' = None"
    using facts [of "[''u'' \<mapsto> broken_response]" "''u''" broken_response]
    by (simp add: env broken_response_def)
  have cut_off_error:
    "fst (downloadFileRaw demo_digests (stale_world [''u'' \<mapsto> broken_response]) ''d/f'' ''u''
          (Some ''cccccccccccccccccccccccccccccccccccccccc''))
     = Some (Join [New ''failed to download u'', UrlError ''u''])"
    by code_simp
  show ?thesis
    using refused refused_trace unreachable cut_off cut_off_error w2
    by (simp add: emit_def w1 wrap_def)
qed

end
